theory Spec2Isabelle
  imports Main "HOL-Library.Sublist"
begin

section \<open>Text\<close>

text \<open>
  Python's \<^verbatim>\<open>str\<close> is modelled by \<^typ>\<open>string\<close> and read as ASCII text: the
  character classes below are those of \<^verbatim>\<open>str.isspace\<close>, \<^verbatim>\<open>str.upper\<close>,
  \<^verbatim>\<open>str.lower\<close> and the regular-expression class \<^verbatim>\<open>\w\<close> on code points
  below 128. Characters from 128 on are outside the embedding (they are kept as they
  are and count as neither space, letter nor word character).
\<close>

text \<open>\<^verbatim>\<open>ord(c)\<close>\<close>

definition ord :: "char \<Rightarrow> nat" where
  "ord c = of_char c"

definition is_space :: "char \<Rightarrow> bool" where
  "is_space c = ((9 \<le> ord c \<and> ord c \<le> 13) \<or> (28 \<le> ord c \<and> ord c \<le> 32))"

definition is_word_char :: "char \<Rightarrow> bool" where
  "is_word_char c =
     ((97 \<le> ord c \<and> ord c \<le> 122) \<or> (65 \<le> ord c \<and> ord c \<le> 90)
      \<or> (48 \<le> ord c \<and> ord c \<le> 57) \<or> ord c = 95)"

definition upper_char :: "char \<Rightarrow> char" where
  "upper_char c = (if 97 \<le> ord c \<and> ord c \<le> 122 then char_of (ord c - 32) else c)"

definition lower_char :: "char \<Rightarrow> char" where
  "lower_char c = (if 65 \<le> ord c \<and> ord c \<le> 90 then char_of (ord c + 32) else c)"

text \<open>\<^verbatim>\<open>s.upper()\<close>\<close>

definition upper :: "string \<Rightarrow> string" where
  "upper s = map upper_char s"

text \<open>\<^verbatim>\<open>s.strip()\<close>: leading and trailing whitespace removed.\<close>

definition strip :: "string \<Rightarrow> string" where
  "strip s = rev (dropWhile is_space (rev (dropWhile is_space s)))"

text \<open>\<^verbatim>\<open>sep.join(parts)\<close>\<close>

fun join :: "string \<Rightarrow> string list \<Rightarrow> string" where
  "join sep [] = []"
| "join sep [x] = x"
| "join sep (x # y # ys) = x @ sep @ join sep (y # ys)"

text \<open>\<^verbatim>\<open>sub in s\<close> for a non-empty or empty \<^verbatim>\<open>sub\<close>: scan of the start positions.\<close>

fun contains :: "string \<Rightarrow> string \<Rightarrow> bool" where
  "contains [] sub = (sub = [])"
| "contains (c # cs) sub = (prefix sub (c # cs) \<or> contains cs sub)"

text \<open>
  \<^verbatim>\<open>s.replace(old, new)\<close> for a non-empty \<^verbatim>\<open>old\<close>: the occurrences are
  replaced from the left, and the scan goes on after each replaced occurrence.
\<close>

function replace :: "string \<Rightarrow> string \<Rightarrow> string \<Rightarrow> string" where
  "replace [] old new = []"
| "replace (c # cs) old new =
     (if old \<noteq> [] \<and> prefix old (c # cs)
      then new @ replace (drop (length old) (c # cs)) old new
      else c # replace cs old new)"
  by pat_completeness auto
termination
  by (relation "measure (\<lambda>(s, old, new). length s)") (auto simp: neq_Nil_conv)

section \<open>Regular expressions the program builds\<close>

text \<open>
  The program builds its own patterns from \<^verbatim>\<open>\b\<close>, \<^verbatim>\<open>re.escape(token)\<close>,
  \<^verbatim>\<open>(?:...|...)\<close> and \<^verbatim>\<open>.*?\<close>. They are kept as syntax trees; \<open>rx_text\<close>
  gives back the pattern text of the source.
\<close>

datatype rx =
    Lit string
  | WordB
  | AnyLazy
  | Group rx
  | Alt rx rx
  | Seq rx rx

text \<open>
  \<^verbatim>\<open>re.escape\<close> (Python 3.7 and later): a backslash before each of the special
  characters \<^verbatim>\<open>()[]{}?*+-|^$\.&~#\<close>, space, tab, newline, carriage return,
  vertical tab and form feed.
\<close>

definition re_special :: "char \<Rightarrow> bool" where
  "re_special c =
     (c \<in> set (''()[]{}?*+-|^$.&~# '' @ [CHR 0x5C]) \<or> (9 \<le> ord c \<and> ord c \<le> 13))"

definition re_escape :: "string \<Rightarrow> string" where
  "re_escape s = concat (map (\<lambda>c. if re_special c then [CHR 0x5C, c] else [c]) s)"

fun rx_text :: "rx \<Rightarrow> string" where
  "rx_text (Lit t) = re_escape t"
| "rx_text WordB = [CHR 0x5C, CHR ''b'']"
| "rx_text AnyLazy = ''.*?''"
| "rx_text (Group r) = ''(?:'' @ rx_text r @ '')''"
| "rx_text (Alt a b) = rx_text a @ ''|'' @ rx_text b"
| "rx_text (Seq a b) = rx_text a @ rx_text b"

record flags =
  IGNORECASE :: bool
  DOTALL :: bool

definition no_flags :: flags where
  "no_flags = \<lparr>IGNORECASE = False, DOTALL = False\<rparr>"

text \<open>
  \<^verbatim>\<open>\b\<close> at position \<open>i\<close>: exactly one of the characters before and after the
  position is a word character (the start and the end of the text count as non-word).
\<close>

definition at_boundary :: "string \<Rightarrow> nat \<Rightarrow> bool" where
  "at_boundary s i =
     ((i < length s \<and> is_word_char (s ! i)) \<noteq> (0 < i \<and> i \<le> length s \<and> is_word_char (s ! (i - 1))))"

text \<open>The escaped literal \<open>t\<close> read at position \<open>i\<close>, letters compared without case under \<^verbatim>\<open>re.IGNORECASE\<close>.\<close>

definition lit_at :: "bool \<Rightarrow> string \<Rightarrow> string \<Rightarrow> nat \<Rightarrow> bool" where
  "lit_at ic t s i =
     (i + length t \<le> length s \<and>
      (if ic then map lower_char (take (length t) (drop i s)) = map lower_char t
       else take (length t) (drop i s) = t))"

text \<open>
  \<open>rx_ends f r s i\<close>: the positions where a match of \<open>r\<close> that starts at \<open>i\<close> can end,
  in the order in which backtracking tries them. Without \<^verbatim>\<open>re.DOTALL\<close> the dot stops
  at a newline.
\<close>

fun rx_ends :: "flags \<Rightarrow> rx \<Rightarrow> string \<Rightarrow> nat \<Rightarrow> nat list" where
  "rx_ends f (Lit t) s i = (if lit_at (IGNORECASE f) t s i then [i + length t] else [])"
| "rx_ends f WordB s i = (if at_boundary s i then [i] else [])"
| "rx_ends f AnyLazy s i =
     (if DOTALL f then [i..<Suc (length s)]
      else [i..<Suc (i + length (takeWhile (\<lambda>c. c \<noteq> CHR 0x0A) (drop i s)))])"
| "rx_ends f (Group r) s i = rx_ends f r s i"
| "rx_ends f (Alt a b) s i = rx_ends f a s i @ rx_ends f b s i"
| "rx_ends f (Seq a b) s i = concat (map (rx_ends f b s) (rx_ends f a s i))"

text \<open>\<^verbatim>\<open>re.search(pattern, s, flags) is not None\<close>: some start position has a match.\<close>

definition re_search :: "flags \<Rightarrow> rx \<Rightarrow> string \<Rightarrow> bool" where
  "re_search f r s = list_ex (\<lambda>i. rx_ends f r s i \<noteq> []) [0..<Suc (length s)]"

section \<open>The evaluators\<close>

text \<open>
  What Python raises is a value of the model. A pattern supplied by the user is text
  for Python's \<^verbatim>\<open>re\<close> module, which is not part of the program: its
  \<^verbatim>\<open>re.search(regex, content)\<close> is a parameter, \<open>None\<close> where the module raises
  \<^verbatim>\<open>re.error\<close> and otherwise whether a match was found.
\<close>

datatype py_exception =
    ReError string
  | ValueError string
  | CommandRaised string
  | TelegramRaised string

type_synonym regex_engine = "string \<Rightarrow> string \<Rightarrow> bool option"

text \<open>The two loops of \<^verbatim>\<open>matches\<close>, with \<^verbatim>\<open>hits\<close> as accumulator.\<close>

fun keyword_loop :: "string \<Rightarrow> string list \<Rightarrow> string list \<Rightarrow> string list" where
  "keyword_loop content [] hits = hits"
| "keyword_loop content (keyword # rest) hits =
     keyword_loop content rest
       (if contains content keyword then hits @ [''keyword:'' @ keyword] else hits)"

fun regex_loop ::
  "regex_engine \<Rightarrow> string \<Rightarrow> string list \<Rightarrow> string list \<Rightarrow> py_exception + string list" where
  "regex_loop search content [] hits = Inr hits"
| "regex_loop search content (regex # rest) hits =
     (case search regex content of
        None \<Rightarrow> Inl (ReError regex)
      | Some found \<Rightarrow>
          regex_loop search content rest (if found then hits @ [''regex:'' @ regex] else hits))"

definition matches ::
  "regex_engine \<Rightarrow> string \<Rightarrow> string list \<Rightarrow> string list \<Rightarrow> py_exception + (bool \<times> string list)" where
  "matches search content keywords regexes =
     (case regex_loop search content regexes (keyword_loop content keywords []) of
        Inl exc \<Rightarrow> Inl exc
      | Inr hits \<Rightarrow> Inr (hits \<noteq> [], hits))"

text \<open>\<^verbatim>\<open>"|".join(...)\<close> of patterns.\<close>

fun alternatives :: "rx list \<Rightarrow> rx" where
  "alternatives [] = Lit []"
| "alternatives [r] = r"
| "alternatives (r # q # rs) = Alt r (alternatives (q # rs))"

definition build_region_regex :: "string list \<Rightarrow> rx option" where
  "build_region_regex regions =
     (let cleaned = map (\<lambda>region. upper (strip region))
                        (filter (\<lambda>region. strip region \<noteq> []) regions)
      in if cleaned = [] then None
         else Some (Seq WordB (Seq (Group (alternatives (map Lit cleaned))) WordB)))"

fun region_loop :: "string \<Rightarrow> string \<Rightarrow> string list \<Rightarrow> string list \<Rightarrow> string list" where
  "region_loop content unavailable_text [] available = available"
| "region_loop content unavailable_text (region # rest) available =
     (let region_token = upper (strip region) in
      if region_token = [] then region_loop content unavailable_text rest available
      else
        let region_pattern = Lit region_token;
            unavailable_pattern =
              Seq WordB (Seq region_pattern (Seq WordB (Seq AnyLazy (Lit unavailable_text))))
        in if re_search \<lparr>IGNORECASE = True, DOTALL = True\<rparr> unavailable_pattern content
           then region_loop content unavailable_text rest available
           else if re_search \<lparr>IGNORECASE = True, DOTALL = False\<rparr>
                     (Seq WordB (Seq region_pattern WordB)) content
           then region_loop content unavailable_text rest (available @ [region_token])
           else region_loop content unavailable_text rest available)"

definition region_is_available :: "string \<Rightarrow> string list \<Rightarrow> string \<Rightarrow> bool \<times> string list" where
  "region_is_available content regions unavailable_text =
     (let available = region_loop content unavailable_text regions []
      in (available \<noteq> [], available))"

definition format_region_message :: "string \<Rightarrow> string list \<Rightarrow> string" where
  "format_region_message message regions =
     (if regions = [] then message
      else
        let region_text = join '', '' regions
        in if contains message ''{regions}'' then replace message ''{regions}'' region_text
           else message @ [CHR 0x0A] @ ''Available regions: '' @ region_text)"

section \<open>The poll loop\<close>

text \<open>The parsed command line (\<^verbatim>\<open>args\<close>).\<close>

record args =
  url :: string
  http_method :: string
  headers :: "string option"
  keyword :: "string list"
  regex :: "string list"
  region :: "string list"
  region_available :: bool
  region_unavailable_text :: string
  interval :: int
  timeout :: int
  command :: "string option"
  telegram_token :: "string option"
  telegram_chat_id :: "string option"
  telegram_message :: string
  include_matches :: bool
  align_hour :: bool
  once :: bool

text \<open>Truth value of an optional string: \<^verbatim>\<open>None\<close> and \<^verbatim>\<open>""\<close> are false.\<close>

definition truthy :: "string option \<Rightarrow> bool" where
  "truthy v = (case v of None \<Rightarrow> False | Some s \<Rightarrow> s \<noteq> [])"

text \<open>
  What the process does is a list of events; what its surroundings do in one iteration of
  the loop is a \<open>poll_env\<close>: the outcome of \<^verbatim>\<open>fetch_url\<close>, the text of
  \<^verbatim>\<open>datetime.now().isoformat(timespec="seconds")\<close>, and whether
  \<^verbatim>\<open>run_command\<close> and \<^verbatim>\<open>send_telegram_message\<close> raise when they are called.
\<close>

datatype event =
    ParserError string
  | Stderr string
  | Stdout string
  | RunCommand string
  | SendTelegram string string string int
  | Sleep int

datatype fetch_result = FetchRaised string | Fetched string

record poll_env =
  fetch_url_result :: fetch_result
  now :: string
  run_command_raises :: "string option"
  send_telegram_raises :: "string option"

text \<open>
  How the process ends: with an exit code, with an exception nobody catches, or not at all
  within the polls that were scripted (\<open>Polling\<close>: the loop is still running).
\<close>

datatype exit = Exit int | Uncaught py_exception | Polling

definition exit_code :: "exit \<Rightarrow> int option" where
  "exit_code x = (case x of Exit n \<Rightarrow> Some n | Uncaught exc \<Rightarrow> Some 1 | Polling \<Rightarrow> None)"

text \<open>Lines 217 to 226 of \<^verbatim>\<open>main\<close>: the decision, the hits and the available regions.\<close>

definition region_filter :: "rx option \<Rightarrow> string \<Rightarrow> bool" where
  "region_filter region_regex content =
     (case region_regex of None \<Rightarrow> True | Some r \<Rightarrow> re_search no_flags r content)"

definition evaluate ::
  "regex_engine \<Rightarrow> args \<Rightarrow> rx option \<Rightarrow> string \<Rightarrow> py_exception + (bool \<times> string list \<times> string list)" where
  "evaluate search a region_regex content =
     (let region_ok = region_filter region_regex content;
          (region_ok, available_regions) =
            (if region_ok \<and> region_available a \<and> region a \<noteq> []
             then region_is_available content (region a) (region_unavailable_text a)
             else (region_ok, []))
      in case matches search content (keyword a) (regex a) of
           Inl exc \<Rightarrow> Inl exc
         | Inr (matched, hits) \<Rightarrow> Inr (matched \<and> region_ok, hits, available_regions))"

text \<open>Lines 232 to 243: the text that is sent.\<close>

definition compose_message :: "args \<Rightarrow> rx option \<Rightarrow> string list \<Rightarrow> string list \<Rightarrow> string" where
  "compose_message a region_regex hits available_regions =
     (let message = telegram_message a;
          message = (if region_available a \<and> available_regions \<noteq> []
                     then format_region_message message available_regions else message)
      in if include_matches a
         then
           let match_details =
                 hits
                 @ (case region_regex of None \<Rightarrow> [] | Some r \<Rightarrow> [''region:'' @ rx_text r])
                 @ (if available_regions \<noteq> []
                    then [''region_available:'' @ join '', '' available_regions] else [])
           in message @ [CHR 0x0A] @ ''Matches: '' @ join '', '' match_details
         else message)"

definition run_command_step :: "args \<Rightarrow> poll_env \<Rightarrow> event list \<times> py_exception option" where
  "run_command_step a e =
     (case command a of
        None \<Rightarrow> ([], None)
      | Some c \<Rightarrow>
          if c = [] then ([], None)
          else ([RunCommand c], map_option CommandRaised (run_command_raises e)))"

definition telegram_step ::
  "args \<Rightarrow> rx option \<Rightarrow> poll_env \<Rightarrow> string list \<Rightarrow> string list \<Rightarrow> event list \<times> py_exception option" where
  "telegram_step a region_regex e hits available_regions =
     (if truthy (telegram_token a) \<and> truthy (telegram_chat_id a)
      then ([SendTelegram (the (telegram_token a)) (the (telegram_chat_id a))
               (compose_message a region_regex hits available_regions) (timeout a)],
            map_option TelegramRaised (send_telegram_raises e))
      else ([], None))"

text \<open>\<^verbatim>\<open>time.sleep(args.interval)\<close>, which raises on a negative argument.\<close>

definition sleep_step :: "args \<Rightarrow> event list \<Rightarrow> event list \<times> exit option" where
  "sleep_step a evs =
     (if interval a < 0
      then (evs, Some (Uncaught (ValueError ''sleep length must be non-negative'')))
      else (evs @ [Sleep (interval a)], None))"

text \<open>
  One run of the loop body. The second component is \<open>None\<close> when the body reaches its
  end and the loop goes on, and how the process ends otherwise.
\<close>

definition iteration ::
  "regex_engine \<Rightarrow> args \<Rightarrow> rx option \<Rightarrow> poll_env \<Rightarrow> event list \<times> exit option" where
  "iteration search a region_regex e =
     (case fetch_url_result e of
        FetchRaised exc \<Rightarrow>
          sleep_step a [Stderr (''['' @ now e @ ''] Request failed: '' @ exc)]
      | Fetched content \<Rightarrow>
          (case evaluate search a region_regex content of
             Inl exc \<Rightarrow> ([], Some (Uncaught exc))
           | Inr (trigger, hits, available_regions) \<Rightarrow>
               if trigger then
                 (let ev0 = [Stdout (''['' @ now e @ ''] Match detected.'')];
                      (ev1, raised1) = run_command_step a e
                  in case raised1 of
                       Some exc \<Rightarrow> (ev0 @ ev1, Some (Uncaught exc))
                     | None \<Rightarrow>
                         (let (ev2, raised2) = telegram_step a region_regex e hits available_regions
                          in case raised2 of
                               Some exc \<Rightarrow> (ev0 @ ev1 @ ev2, Some (Uncaught exc))
                             | None \<Rightarrow>
                                 if once a then (ev0 @ ev1 @ ev2, Some (Exit 0))
                                 else sleep_step a (ev0 @ ev1 @ ev2)))
               else sleep_step a []))"

text \<open>\<^verbatim>\<open>while True\<close>, run on the scripted polls.\<close>

fun poll_loop ::
  "regex_engine \<Rightarrow> args \<Rightarrow> rx option \<Rightarrow> poll_env list \<Rightarrow> event list \<times> exit" where
  "poll_loop search a region_regex [] = ([], Polling)"
| "poll_loop search a region_regex (e # es) =
     (case iteration search a region_regex e of
        (evs, Some x) \<Rightarrow> (evs, x)
      | (evs, None) \<Rightarrow>
          (case poll_loop search a region_regex es of (evs', x) \<Rightarrow> (evs @ evs', x)))"

text \<open>
  The world of one run: Python's \<^verbatim>\<open>re.search\<close> on the user's patterns,
  \<^verbatim>\<open>json.loads\<close> (\<open>None\<close> where it raises), the minute, second and microsecond of
  \<^verbatim>\<open>datetime.now()\<close> when the run starts, and the polls.
\<close>

record world =
  re_search_user :: regex_engine
  json_loads :: "string \<Rightarrow> (string \<times> string) list option"
  start_time :: "nat \<times> nat \<times> nat"
  polls :: "poll_env list"

definition load_headers ::
  "(string \<Rightarrow> (string \<times> string) list option) \<Rightarrow> string option \<Rightarrow> py_exception + (string \<times> string) list" where
  "load_headers loads headers_json =
     (if \<not> truthy headers_json then Inr []
      else case loads (the headers_json) of
             None \<Rightarrow> Inl (ValueError ''Invalid JSON for headers'')
           | Some d \<Rightarrow> Inr d)"

definition align_to_next_hour :: "nat \<times> nat \<times> nat \<Rightarrow> event list" where
  "align_to_next_hour t =
     (case t of (minute, second, microsecond) \<Rightarrow>
        let sleep_seconds =
              (3600 * 1000000 - ((minute * 60 + second) * 1000000 + microsecond)) div 1000000
        in if sleep_seconds \<noteq> 0 then [Sleep (int sleep_seconds)] else [])"

definition main :: "world \<Rightarrow> args \<Rightarrow> event list \<times> exit" where
  "main w a =
     (if keyword a = [] \<and> regex a = []
      then ([ParserError ''Provide at least one of --keyword or --regex.''], Exit 2)
      else if (truthy (telegram_token a) \<and> \<not> truthy (telegram_chat_id a))
              \<or> (truthy (telegram_chat_id a) \<and> \<not> truthy (telegram_token a))
      then ([ParserError ''Provide both --telegram-token and --telegram-chat-id together.''], Exit 2)
      else
        case load_headers (json_loads w) (headers a) of
          Inl exc \<Rightarrow> ([], Uncaught exc)
        | Inr hs \<Rightarrow>
            (let region_regex = build_region_regex (region a);
                 ev0 = (if align_hour a then align_to_next_hour (start_time w) else [])
             in case poll_loop (re_search_user w) a region_regex (polls w) of
                  (evs, x) \<Rightarrow> (ev0 @ evs, x)))"

section \<open>The notions of the specification\<close>

text \<open>
  A token occurs between word boundaries: at some position of the text the token can be
  read (without regard to case when \<open>ic\<close> holds), with a word boundary before it and
  one after it.
\<close>

definition token_found :: "bool \<Rightarrow> string \<Rightarrow> string \<Rightarrow> bool" where
  "token_found ic t s =
     (\<exists>i\<in>{0..length s}. at_boundary s i \<and> lit_at ic t s i \<and> at_boundary s (i + length t))"

text \<open>
  A token is followed later in the text by the marker: the token occurs between word
  boundaries, and the marker can be read at some position at or after the end of that
  occurrence, whatever lies between the two (newlines too).
\<close>

definition token_then_marker :: "string \<Rightarrow> string \<Rightarrow> string \<Rightarrow> bool" where
  "token_then_marker t m s =
     (\<exists>i\<in>{0..length s}. \<exists>j\<in>{0..length s}.
        at_boundary s i \<and> lit_at True t s i \<and> at_boundary s (i + length t)
        \<and> i + length t \<le> j \<and> lit_at True m s j)"

text \<open>
  The trigger decision of one poll: \<open>None\<close> when the fetch fails or the evaluation
  raises, since then no decision is taken.
\<close>

definition trigger_of :: "regex_engine \<Rightarrow> args \<Rightarrow> rx option \<Rightarrow> poll_env \<Rightarrow> bool option" where
  "trigger_of search a region_regex e =
     (case fetch_url_result e of
        FetchRaised exc \<Rightarrow> None
      | Fetched content \<Rightarrow>
          (case evaluate search a region_regex content of
             Inl exc \<Rightarrow> None
           | Inr (trigger, hits, available_regions) \<Rightarrow> Some trigger))"

text \<open>
  An engine for the examples: what \<^verbatim>\<open>re.search\<close> answers on the two patterns of the
  specification's examples (\<^verbatim>\<open>^a\<close>: the text starts with \<open>a\<close>; \<^verbatim>\<open>z+\<close>: the text
  has a \<open>z\<close>), and no other pattern accepted.
\<close>

definition example_search :: regex_engine where
  "example_search pattern s =
     (if pattern = ''^a'' then Some (prefix ''a'' s)
      else if pattern = ''z+'' then Some (CHR ''z'' \<in> set s)
      else None)"

section \<open>Example configurations\<close>

text \<open>
  The configuration of the end-to-end scenario of the specification: keyword
  \<^verbatim>\<open>available\<close>, region SG in availability mode, unavailable text \<^verbatim>\<open>sold out\<close>,
  single shot.
\<close>

definition example_args :: args where
  "example_args =
     \<lparr>url = ''https://example.org/status'', http_method = ''GET'', headers = None,
      keyword = [''available''], regex = [], region = [''SG''], region_available = True,
      region_unavailable_text = ''sold out'', interval = 25, timeout = 10, command = None,
      telegram_token = None, telegram_chat_id = None,
      telegram_message = ''Resource is available.'', include_matches = False,
      align_hour = False, once = True\<rparr>"


definition poll_of :: "string \<Rightarrow> poll_env" where
  "poll_of content =
     \<lparr>fetch_url_result = Fetched content, now = ''2024-05-01T10:00:00'',
      run_command_raises = None, send_telegram_raises = None\<rparr>"

section \<open>The character classes on the bits of a character\<close>

text \<open>
  The same functions, read off the eight bits of the character (the letters are the codes
  whose low five bits are 1 to 26, above \<open>0x40\<close> and \<open>0x60\<close>); these equations are
  the ones used to evaluate a concrete text.
\<close>

lemma lower_char_bits [code]:
  "lower_char (Char b0 b1 b2 b3 b4 b5 b6 b7) =
     (if \<not> b7 \<and> b6 \<and> \<not> b5 \<and> (b0 \<or> b1 \<or> b2 \<or> b3 \<or> b4) \<and> \<not> (b4 \<and> b3 \<and> (b2 \<or> (b1 \<and> b0)))
      then Char b0 b1 b2 b3 b4 True b6 b7 else Char b0 b1 b2 b3 b4 b5 b6 b7)"
  by (cases b0; cases b1; cases b2; cases b3; cases b4; cases b5; cases b6; cases b7)
     (simp_all add: lower_char_def ord_def char_of_def bit_Suc_0_iff)

lemma upper_char_bits [code]:
  "upper_char (Char b0 b1 b2 b3 b4 b5 b6 b7) =
     (if \<not> b7 \<and> b6 \<and> b5 \<and> (b0 \<or> b1 \<or> b2 \<or> b3 \<or> b4) \<and> \<not> (b4 \<and> b3 \<and> (b2 \<or> (b1 \<and> b0)))
      then Char b0 b1 b2 b3 b4 False b6 b7 else Char b0 b1 b2 b3 b4 b5 b6 b7)"
  by (cases b0; cases b1; cases b2; cases b3; cases b4; cases b5; cases b6; cases b7)
     (simp_all add: upper_char_def ord_def char_of_def bit_Suc_0_iff)

lemma is_word_char_bits [code]:
  "is_word_char (Char b0 b1 b2 b3 b4 b5 b6 b7) =
     (\<not> b7 \<and>
      ((b6 \<and> (b0 \<or> b1 \<or> b2 \<or> b3 \<or> b4) \<and> \<not> (b4 \<and> b3 \<and> (b2 \<or> (b1 \<and> b0))))
       \<or> (\<not> b6 \<and> b5 \<and> b4 \<and> \<not> (b3 \<and> (b2 \<or> b1)))
       \<or> (b6 \<and> \<not> b5 \<and> b4 \<and> b3 \<and> b2 \<and> b1 \<and> b0)))"
  by (cases b0; cases b1; cases b2; cases b3; cases b4; cases b5; cases b6; cases b7)
     (simp_all add: is_word_char_def ord_def)

section \<open>What the patterns of the program match\<close>

lemma re_search_iff: "re_search f r s \<longleftrightarrow> (\<exists>i\<in>{0..length s}. rx_ends f r s i \<noteq> [])"
  by (simp add: re_search_def list_ex_iff Bex_def less_Suc_eq_le del: upt_Suc)

lemma nonempty_iff: "xs \<noteq> [] \<longleftrightarrow> (\<exists>x. x \<in> set xs)"
  by (cases xs) auto

lemma re_search_token:
  "re_search f (Seq WordB (Seq (Lit t) WordB)) s \<longleftrightarrow> token_found (IGNORECASE f) t s"
  by (auto simp: re_search_iff token_found_def split: if_splits)

lemma ends_alternatives:
  "ts \<noteq> [] \<Longrightarrow> set (rx_ends f (alternatives (map Lit ts)) s i) = (\<Union>t\<in>set ts. set (rx_ends f (Lit t) s i))"
  by (induction ts rule: induct_list012) auto

lemma re_search_alternatives:
  assumes "ts \<noteq> []"
  shows "re_search f (Seq WordB (Seq (Group (alternatives (map Lit ts))) WordB)) s
         \<longleftrightarrow> (\<exists>t\<in>set ts. token_found (IGNORECASE f) t s)"
proof -
  have "rx_ends f (Seq WordB (Seq (Group (alternatives (map Lit ts))) WordB)) s i \<noteq> []
        \<longleftrightarrow> (\<exists>t\<in>set ts. at_boundary s i \<and> lit_at (IGNORECASE f) t s i \<and> at_boundary s (i + length t))" for i
    unfolding nonempty_iff [of "rx_ends f (Seq WordB (Seq (Group (alternatives (map Lit ts))) WordB)) s i"]
    by (auto simp: ends_alternatives [OF assms] split: if_splits)
  then show ?thesis
    unfolding re_search_iff token_found_def by blast
qed

lemma re_search_unavailable:
  "re_search \<lparr>IGNORECASE = True, DOTALL = True\<rparr>
      (Seq WordB (Seq (Lit t) (Seq WordB (Seq AnyLazy (Lit m))))) s
   \<longleftrightarrow> token_then_marker t m s"
proof -
  let ?f = "\<lparr>IGNORECASE = True, DOTALL = True\<rparr>"
  have lit_len: "lit_at True m s j \<Longrightarrow> j \<le> length s" for j
    by (simp add: lit_at_def)
  have "rx_ends ?f (Seq WordB (Seq (Lit t) (Seq WordB (Seq AnyLazy (Lit m))))) s i \<noteq> []
        \<longleftrightarrow> (at_boundary s i \<and> lit_at True t s i \<and> at_boundary s (i + length t)
             \<and> (\<exists>j\<in>{0..length s}. i + length t \<le> j \<and> lit_at True m s j))" for i
    unfolding nonempty_iff [of "rx_ends ?f (Seq WordB (Seq (Lit t) (Seq WordB (Seq AnyLazy (Lit m))))) s i"]
    apply (auto simp del: upt_Suc split: if_splits dest: lit_len)
    subgoal for j by (rule exI [of _ "j + length m"], rule bexI [of _ j]) auto
    done
  then show ?thesis
    unfolding re_search_iff token_then_marker_def by blast
qed

section \<open>The loops of the evaluators as filters\<close>

lemma contains_sublist: "contains s sub \<longleftrightarrow> sublist sub s"
  by (induction s) (auto simp: sublist_Cons_right)

lemma keyword_loop_filter:
  "keyword_loop content ks hits = hits @ map ((@) ''keyword:'') (filter (\<lambda>k. sublist k content) ks)"
  by (induction ks arbitrary: hits) (auto simp: contains_sublist)

lemma regex_loop_filter:
  "regex_loop search content rs hits =
     (case find (\<lambda>r. search r content = None) rs of
        Some bad \<Rightarrow> Inl (ReError bad)
      | None \<Rightarrow> Inr (hits @ map ((@) ''regex:'') (filter (\<lambda>r. search r content = Some True) rs)))"
  by (induction rs arbitrary: hits) (auto split: option.splits)

lemma region_loop_filter:
  "region_loop content m regions available =
     available @ filter (\<lambda>t. t \<noteq> [] \<and> \<not> token_then_marker t m content \<and> token_found True t content)
                  (map (\<lambda>region. upper (strip region)) regions)"
  by (induction regions arbitrary: available)
     (auto simp: Let_def re_search_unavailable re_search_token)

section \<open>The Region Evaluator\<close>

lemma found_then_empty_marker: "token_found True t s \<Longrightarrow> token_then_marker t [] s"
proof -
  assume "token_found True t s"
  then obtain i where i: "i \<in> {0..length s}" "at_boundary s i" "lit_at True t s i"
      "at_boundary s (i + length t)"
    unfolding token_found_def by blast
  from i(3) have "i + length t \<in> {0..length s}" "lit_at True [] s (i + length t)"
    by (simp_all add: lit_at_def)
  with i show ?thesis
    unfolding token_then_marker_def by blast
qed

text \<open>
  Claim C10. With the empty string as unavailable marker, the Region Evaluator returns
  outcome false and no available region, for every text and every list of region tokens:
  wherever a token is found, the pattern of the token followed by the marker matches too.
\<close>

theorem region_is_available_empty_marker:
  "region_is_available content regions [] = (False, [])"
  using found_then_empty_marker
  by (auto simp: region_is_available_def region_loop_filter filter_empty_conv)

theorem region_is_available_empty_marker_witness:
  "region_is_available ''SG ready, IN ready'' [''SG'', ''IN''] [] = (False, [])"
  using region_is_available_empty_marker [of "''SG ready, IN ready''" "[''SG'', ''IN'']"] by simp



section \<open>The Match Evaluator\<close>

text \<open>
  Claim C5. The Match Evaluator raises when one of the patterns is not a regular
  expression; otherwise it returns matched exactly when a keyword is a substring of the
  text or a pattern is found in it, and the fired rules are the firing keywords in the
  order of the configuration, then the firing patterns in the order of the configuration.
  The three examples of the specification follow, the last two for every engine that
  answers on \<^verbatim>\<open>^a\<close> and \<^verbatim>\<open>z+\<close> as Python does.
\<close>

theorem matches_spec:
  "matches search content keywords regexes =
     (case find (\<lambda>r. search r content = None) regexes of
        Some bad \<Rightarrow> Inl (ReError bad)
      | None \<Rightarrow>
          Inr ((\<exists>k\<in>set keywords. sublist k content) \<or> (\<exists>r\<in>set regexes. search r content = Some True),
               map ((@) ''keyword:'') (filter (\<lambda>k. sublist k content) keywords)
               @ map ((@) ''regex:'') (filter (\<lambda>r. search r content = Some True) regexes)))
   \<and> matches search ''hello world'' [''hello''] [] = Inr (True, [''keyword:hello''])
   \<and> (search ''^a'' ''abc'' = Some True \<longrightarrow>
        matches search ''abc'' [''x''] [''^a''] = Inr (True, [''regex:^a'']))
   \<and> (search ''z+'' ''abc'' = Some False \<longrightarrow>
        matches search ''abc'' [''x''] [''z+''] = Inr (False, []))"
proof (intro conjI impI)
  show "matches search content keywords regexes =
     (case find (\<lambda>r. search r content = None) regexes of
        Some bad \<Rightarrow> Inl (ReError bad)
      | None \<Rightarrow>
          Inr ((\<exists>k\<in>set keywords. sublist k content) \<or> (\<exists>r\<in>set regexes. search r content = Some True),
               map ((@) ''keyword:'') (filter (\<lambda>k. sublist k content) keywords)
               @ map ((@) ''regex:'') (filter (\<lambda>r. search r content = Some True) regexes)))"
    by (auto simp: matches_def regex_loop_filter keyword_loop_filter filter_empty_conv
             split: option.splits)
  show "matches search ''hello world'' [''hello''] [] = Inr (True, [''keyword:hello''])"
    by (simp add: matches_def)
  show "matches search ''abc'' [''x''] [''^a''] = Inr (True, [''regex:^a''])"
    if "search ''^a'' ''abc'' = Some True"
    using that by (simp add: matches_def)
  show "matches search ''abc'' [''x''] [''z+''] = Inr (False, [])"
    if "search ''z+'' ''abc'' = Some False"
    using that by (simp add: matches_def)
qed

theorem matches_spec_witness:
  "example_search ''^a'' ''abc'' = Some True
   \<and> matches example_search ''abc'' [''x''] [''^a''] = Inr (True, [''regex:^a''])
   \<and> example_search ''z+'' ''abc'' = Some False
   \<and> matches example_search ''abc'' [''x''] [''z+''] = Inr (False, [])"
proof -
  have a: "example_search ''^a'' ''abc'' = Some True"
    and z: "example_search ''z+'' ''abc'' = Some False"
    by (simp_all add: example_search_def)
  from matches_spec [of example_search "[]" "[]" "[]"] a z show ?thesis
    by blast
qed

section \<open>Configuration validation\<close>

lemma main_keyword_error:
  "keyword a = [] \<Longrightarrow> regex a = [] \<Longrightarrow>
   main w a = ([ParserError ''Provide at least one of --keyword or --regex.''], Exit 2)"
  by (simp add: main_def)

lemma main_telegram_error:
  "\<not> (keyword a = [] \<and> regex a = []) \<Longrightarrow>
   truthy (telegram_token a) \<noteq> truthy (telegram_chat_id a) \<Longrightarrow>
   main w a =
     ([ParserError ''Provide both --telegram-token and --telegram-chat-id together.''], Exit 2)"
  unfolding main_def by (cases "truthy (telegram_token a)") simp_all

text \<open>
  Claim C7. When the keyword list and the regex list are both empty, or when exactly one
  of the two messaging credentials is set (given and not the empty string), \<^verbatim>\<open>main\<close>
  reports an argument error and the process exits with code 2, whatever the world does:
  no poll is made.
\<close>

theorem validation_fails:
  assumes "(keyword a = [] \<and> regex a = [])
           \<or> (truthy (telegram_token a) \<noteq> truthy (telegram_chat_id a))"
  shows "\<exists>msg. \<forall>w. main w a = ([ParserError msg], Exit 2)
                   \<and> exit_code (snd (main w a)) = Some 2"
proof (cases "keyword a = [] \<and> regex a = []")
  case True
  then have "main w a = ([ParserError ''Provide at least one of --keyword or --regex.''], Exit 2)"
    for w by (simp only: main_keyword_error)
  then show ?thesis by (simp add: exit_code_def)
next
  case False
  with assms have "truthy (telegram_token a) \<noteq> truthy (telegram_chat_id a)"
    by blast
  with False have "main w a =
     ([ParserError ''Provide both --telegram-token and --telegram-chat-id together.''], Exit 2)"
    for w by (rule main_telegram_error)
  then show ?thesis by (simp add: exit_code_def)
qed

theorem validation_fails_witness:
  "(\<exists>msg. \<forall>w. main w (example_args\<lparr>keyword := []\<rparr>) = ([ParserError msg], Exit 2)
                \<and> exit_code (snd (main w (example_args\<lparr>keyword := []\<rparr>))) = Some 2)
   \<and> (\<exists>msg. \<forall>w. main w (example_args\<lparr>telegram_token := Some ''123:abc''\<rparr>)
                     = ([ParserError msg], Exit 2)
                \<and> exit_code (snd (main w (example_args\<lparr>telegram_token := Some ''123:abc''\<rparr>))) = Some 2)"
proof
  have "keyword (example_args\<lparr>keyword := []\<rparr>) = [] \<and> regex (example_args\<lparr>keyword := []\<rparr>) = []"
    by (simp add: example_args_def)
  then show "\<exists>msg. \<forall>w. main w (example_args\<lparr>keyword := []\<rparr>) = ([ParserError msg], Exit 2)
                \<and> exit_code (snd (main w (example_args\<lparr>keyword := []\<rparr>))) = Some 2"
    by (intro validation_fails disjI1)
  have "truthy (telegram_token (example_args\<lparr>telegram_token := Some ''123:abc''\<rparr>))
        \<noteq> truthy (telegram_chat_id (example_args\<lparr>telegram_token := Some ''123:abc''\<rparr>))"
    by (simp add: example_args_def truthy_def)
  then show "\<exists>msg. \<forall>w. main w (example_args\<lparr>telegram_token := Some ''123:abc''\<rparr>)
                     = ([ParserError msg], Exit 2)
                \<and> exit_code (snd (main w (example_args\<lparr>telegram_token := Some ''123:abc''\<rparr>))) = Some 2"
    by (intro validation_fails disjI2)
qed

section \<open>The poll loop on a failed fetch\<close>



lemma poll_loop_stop:
  "iteration search a rr e = (evs, Some x) \<Longrightarrow> poll_loop search a rr (e # es) = (evs, x)"
  by simp



end
